theory Spec2Isabelle
  imports Complex_Main
begin

section \<open>Values of type double\<close>

text \<open>
  The physics engine computes with C++ \<^verbatim>\<open>double\<close>. A double is modelled as an exact
  real number or one of the three special values of the format: the two infinities and
  a single NaN. Finite arithmetic is exact: rounding, overflow and underflow are left
  out, there is one zero (taken as positive), and \<^verbatim>\<open>M_PI\<close> is the number \<open>\<pi>\<close>. The
  special values follow the rules of the format: an invalid operation (\<open>0/0\<close>,
  \<open>\<infinity> - \<infinity>\<close>, \<open>0 \<cdot> \<infinity>\<close>, the square root of a negative number) gives NaN, NaN
  propagates through arithmetic, and every ordered comparison with NaN is false. The
  order \<open><\<close>, \<open>\<le>\<close> on doubles is that comparison; it is not a linear order.
\<close>

datatype double = Fin real | PInf | NInf | NaN

fun isfinite :: "double \<Rightarrow> bool" where
  "isfinite (Fin a) = True"
| "isfinite PInf = False"
| "isfinite NInf = False"
| "isfinite NaN = False"

instantiation double :: "{plus, minus, uminus, times, inverse, ord}"
begin

fun plus_double :: "double \<Rightarrow> double \<Rightarrow> double" where
  "plus_double (Fin a) (Fin b) = Fin (a + b)"
| "plus_double NaN b = NaN"
| "plus_double a NaN = NaN"
| "plus_double PInf NInf = NaN"
| "plus_double NInf PInf = NaN"
| "plus_double PInf b = PInf"
| "plus_double a PInf = PInf"
| "plus_double NInf b = NInf"
| "plus_double a NInf = NInf"

fun uminus_double :: "double \<Rightarrow> double" where
  "uminus_double (Fin a) = Fin (- a)"
| "uminus_double PInf = NInf"
| "uminus_double NInf = PInf"
| "uminus_double NaN = NaN"

definition minus_double :: "double \<Rightarrow> double \<Rightarrow> double" where
  "minus_double a b = a + (- b)"

fun times_double :: "double \<Rightarrow> double \<Rightarrow> double" where
  "times_double (Fin a) (Fin b) = Fin (a * b)"
| "times_double NaN b = NaN"
| "times_double a NaN = NaN"
| "times_double (Fin a) PInf = (if a = 0 then NaN else if 0 < a then PInf else NInf)"
| "times_double (Fin a) NInf = (if a = 0 then NaN else if 0 < a then NInf else PInf)"
| "times_double PInf (Fin b) = (if b = 0 then NaN else if 0 < b then PInf else NInf)"
| "times_double NInf (Fin b) = (if b = 0 then NaN else if 0 < b then NInf else PInf)"
| "times_double PInf PInf = PInf"
| "times_double PInf NInf = NInf"
| "times_double NInf PInf = NInf"
| "times_double NInf NInf = PInf"

fun divide_double :: "double \<Rightarrow> double \<Rightarrow> double" where
  "divide_double (Fin a) (Fin b) =
     (if b = 0 then (if a = 0 then NaN else if 0 < a then PInf else NInf)
      else Fin (a / b))"
| "divide_double NaN b = NaN"
| "divide_double a NaN = NaN"
| "divide_double (Fin a) PInf = Fin 0"
| "divide_double (Fin a) NInf = Fin 0"
| "divide_double PInf (Fin b) = (if 0 \<le> b then PInf else NInf)"
| "divide_double NInf (Fin b) = (if 0 \<le> b then NInf else PInf)"
| "divide_double PInf PInf = NaN"
| "divide_double PInf NInf = NaN"
| "divide_double NInf PInf = NaN"
| "divide_double NInf NInf = NaN"

definition inverse_double :: "double \<Rightarrow> double" where
  "inverse_double a = divide (Fin 1) a"

fun less_double :: "double \<Rightarrow> double \<Rightarrow> bool" where
  "less_double (Fin a) (Fin b) = (a < b)"
| "less_double NaN b = False"
| "less_double a NaN = False"
| "less_double a NInf = False"
| "less_double PInf b = False"
| "less_double NInf b = True"
| "less_double a PInf = True"

fun less_eq_double :: "double \<Rightarrow> double \<Rightarrow> bool" where
  "less_eq_double (Fin a) (Fin b) = (a \<le> b)"
| "less_eq_double NaN b = False"
| "less_eq_double a NaN = False"
| "less_eq_double NInf b = True"
| "less_eq_double a PInf = True"
| "less_eq_double a NInf = False"
| "less_eq_double PInf b = False"

instance ..

end

text \<open>The functions of \<^verbatim>\<open><cmath>\<close> and \<^verbatim>\<open><algorithm>\<close> that the engine calls.\<close>

fun dsqrt :: "double \<Rightarrow> double" where
  "dsqrt (Fin a) = (if a < 0 then NaN else Fin (sqrt a))"
| "dsqrt PInf = PInf"
| "dsqrt NInf = NaN"
| "dsqrt NaN = NaN"

fun dexp :: "double \<Rightarrow> double" where
  "dexp (Fin a) = Fin (exp a)"
| "dexp PInf = PInf"
| "dexp NInf = Fin 0"
| "dexp NaN = NaN"

fun dcos :: "double \<Rightarrow> double" where
  "dcos (Fin a) = Fin (cos a)"
| "dcos PInf = NaN"
| "dcos NInf = NaN"
| "dcos NaN = NaN"

fun dsin :: "double \<Rightarrow> double" where
  "dsin (Fin a) = Fin (sin a)"
| "dsin PInf = NaN"
| "dsin NInf = NaN"
| "dsin NaN = NaN"

fun dabs :: "double \<Rightarrow> double" where
  "dabs (Fin a) = Fin \<bar>a\<bar>"
| "dabs PInf = PInf"
| "dabs NInf = PInf"
| "dabs NaN = NaN"

definition is_odd_integer :: "real \<Rightarrow> bool" where
  "is_odd_integer b \<longleftrightarrow> b = of_int \<lfloor>b\<rfloor> \<and> odd \<lfloor>b\<rfloor>"

text \<open>
  \<^verbatim>\<open>pow(x, y)\<close> with the special cases of the C library: \<open>pow(x, 0) = 1\<close> and
  \<open>pow(1, y) = 1\<close> for every operand, a negative finite base with a non-integer exponent
  is invalid.
\<close>

fun dpow :: "double \<Rightarrow> double \<Rightarrow> double" where
  "dpow (Fin a) (Fin b) =
     (if b = 0 \<or> a = 1 then Fin 1
      else if 0 < a then Fin (a powr b)
      else if a = 0 then (if 0 < b then Fin 0 else PInf)
      else if b = of_int \<lfloor>b\<rfloor>
        then (if odd \<lfloor>b\<rfloor> then Fin (- ((- a) powr b)) else Fin ((- a) powr b))
      else NaN)"
| "dpow a (Fin b) =
     (if b = 0 then Fin 1
      else case a of
        NaN \<Rightarrow> NaN
      | PInf \<Rightarrow> (if 0 < b then PInf else Fin 0)
      | NInf \<Rightarrow> (if 0 < b then (if is_odd_integer b then NInf else PInf) else Fin 0)
      | Fin r \<Rightarrow> NaN)"
| "dpow (Fin a) PInf =
     (if a = 1 \<or> a = - 1 then Fin 1 else if \<bar>a\<bar> < 1 then Fin 0 else PInf)"
| "dpow (Fin a) NInf =
     (if a = 1 \<or> a = - 1 then Fin 1 else if \<bar>a\<bar> < 1 then PInf else Fin 0)"
| "dpow (Fin a) NaN = (if a = 1 then Fin 1 else NaN)"
| "dpow NaN b = NaN"
| "dpow a NaN = NaN"
| "dpow a PInf = PInf"
| "dpow a NInf = Fin 0"

text \<open>
  \<^verbatim>\<open>std::min(a, b)\<close> is \<^verbatim>\<open>(b < a) ? b : a\<close> and \<^verbatim>\<open>std::max(a, b)\<close> is
  \<^verbatim>\<open>(a < b) ? b : a\<close>.
\<close>

definition dmin :: "double \<Rightarrow> double \<Rightarrow> double" where
  "dmin a b = (if b < a then b else a)"

definition dmax :: "double \<Rightarrow> double \<Rightarrow> double" where
  "dmax a b = (if a < b then b else a)"


section \<open>Data model (physics.h, atmosphere.h, trajectory.h)\<close>

record SpinAxis =
  tilt :: double
  direction :: double

record TrajectoryPoint =
  x :: double
  y :: double

record TrajectoryResult =
  trajectory :: "TrajectoryPoint list"
  distance :: double
  apex :: double

datatype TrajectoryStatus = Success | InvalidInput | CalculationError | ConvergenceFailure

record TrajectoryResultWithStatus =
  status :: TrajectoryStatus
  errorMessage :: string
  result :: "TrajectoryResult option"

definition isSuccess :: "TrajectoryResultWithStatus \<Rightarrow> bool" where
  "isSuccess r \<longleftrightarrow> status r = Success"

text \<open>The three fields of \<^verbatim>\<open>weather::WeatherData\<close> that the density calculation reads.\<close>

record WeatherData =
  temperature :: double
  humidity :: double
  pressure :: double

record AtmosphericLayer =
  baseAltitude :: double
  temperature :: double
  pressure :: double
  lapseRate :: double

text \<open>
  What the code throws: \<^verbatim>\<open>PhysicsValidationError\<close> (derived from
  \<^verbatim>\<open>std::runtime_error\<close>) carries its message; \<open>StdException\<close> stands for any other
  \<^verbatim>\<open>std::exception\<close>.
\<close>

datatype exn = PhysicsValidationError string | StdException string

datatype Vector3D = Vector3D double double double

fun magnitude :: "Vector3D \<Rightarrow> double" where
  "magnitude (Vector3D a b c) = dsqrt (a * a + b * b + c * c)"

fun scale :: "Vector3D \<Rightarrow> double \<Rightarrow> Vector3D" where
  "scale (Vector3D a b c) scalar = Vector3D (a * scalar) (b * scalar) (c * scalar)"

fun vminus :: "Vector3D \<Rightarrow> Vector3D \<Rightarrow> Vector3D" where
  "vminus (Vector3D a b c) (Vector3D a' b' c') = Vector3D (a - a') (b - b') (c - c')"

section \<open>Constants (physics.h)\<close>

definition M_PI :: double where "M_PI = Fin pi"
definition GRAVITY :: double where "GRAVITY = Fin 9.81"
definition STANDARD_AIR_DENSITY :: double where "STANDARD_AIR_DENSITY = Fin 1.225"
definition AIR_VISCOSITY :: double where "AIR_VISCOSITY = Fin 0.0000181"
definition BALL_MASS :: double where "BALL_MASS = Fin 0.0459"
definition BALL_RADIUS :: double where "BALL_RADIUS = Fin 0.0213"
definition BALL_AREA :: double where "BALL_AREA = M_PI * BALL_RADIUS * BALL_RADIUS"
definition BASE_DRAG_COEFFICIENT :: double where "BASE_DRAG_COEFFICIENT = Fin 0.47"
definition BASE_LIFT_COEFFICIENT :: double where "BASE_LIFT_COEFFICIENT = Fin 0.25"
definition CRITICAL_REYNOLDS :: double where "CRITICAL_REYNOLDS = Fin 40000"
definition TURBULENT_REYNOLDS :: double where "TURBULENT_REYNOLDS = Fin 400000"
definition SPIN_DECAY_RATE :: double where "SPIN_DECAY_RATE = Fin 0.045"
definition SURFACE_ROUGHNESS :: double where "SURFACE_ROUGHNESS = Fin 0.0014"
definition MAX_LIFT_COEFFICIENT :: double where "MAX_LIFT_COEFFICIENT = Fin 0.35"

section \<open>Atmospheric model (atmosphere.cpp)\<close>

definition AtmosphericModel_R :: double where "AtmosphericModel_R = Fin 287.058"
definition AtmosphericModel_g :: double where "AtmosphericModel_g = Fin 9.80665"

definition mkLayer :: "real \<Rightarrow> real \<Rightarrow> real \<Rightarrow> real \<Rightarrow> AtmosphericLayer" where
  "mkLayer alt temp press lapse =
     \<lparr>baseAltitude = Fin alt, temperature = Fin temp, pressure = Fin press,
      lapseRate = Fin lapse\<rparr>"

text \<open>The layer table that the constructor of \<^verbatim>\<open>AtmosphericModel\<close> builds.\<close>

definition layers :: "AtmosphericLayer list" where
  "layers =
     [mkLayer 0 288.15 101325.0 (- 0.0065),
      mkLayer 11000 216.65 22632.1 0.0,
      mkLayer 20000 216.65 5474.89 0.001,
      mkLayer 32000 228.65 868.019 0.0028,
      mkLayer 47000 270.65 110.906 0.0]"

text \<open>
  The \<^verbatim>\<open>for\<close> loop of \<^verbatim>\<open>findLayerIndex\<close>, from index \<open>i\<close> on: the first layer whose
  base lies above the altitude ends the search with the index before it.
\<close>

function findLayerLoop :: "double \<Rightarrow> nat \<Rightarrow> nat" where
  "findLayerLoop altitude i =
     (if i < length layers
      then (if altitude < baseAltitude (layers ! i) then i - 1
            else findLayerLoop altitude (Suc i))
      else length layers - 1)"
  by pat_completeness auto
termination
  by (relation "measure (\<lambda>(altitude, i). length layers - i)") auto

declare findLayerLoop.simps [simp del]

definition findLayerIndex :: "double \<Rightarrow> nat" where
  "findLayerIndex altitude = findLayerLoop altitude 1"

definition getLayer :: "double \<Rightarrow> AtmosphericLayer" where
  "getLayer altitude = layers ! findLayerIndex altitude"

definition getTemperature :: "double \<Rightarrow> double" where
  "getTemperature altitude =
     (let layer = getLayer altitude;
          deltaH = altitude - baseAltitude layer
      in AtmosphericLayer.temperature layer + lapseRate layer * deltaH)"

definition getPressure :: "double \<Rightarrow> double" where
  "getPressure altitude =
     (let layer = getLayer altitude;
          deltaH = altitude - baseAltitude layer;
          T = getTemperature altitude
      in if dabs (lapseRate layer) < Fin 0.0000000001
         then AtmosphericLayer.pressure layer
                * dexp (- AtmosphericModel_g * deltaH / (AtmosphericModel_R * T))
         else (let exponent = - AtmosphericModel_g / (AtmosphericModel_R * lapseRate layer)
               in AtmosphericLayer.pressure layer
                    * dpow (T / AtmosphericLayer.temperature layer) exponent))"

definition calculateVaporPressure :: "double \<Rightarrow> double \<Rightarrow> double" where
  "calculateVaporPressure temp hum =
     (let tempC = temp - Fin 273.15;
          saturationPressure = Fin 610.78 * dexp ((Fin 17.27 * tempC) / (tempC + Fin 237.3))
      in (hum / Fin 100.0) * saturationPressure)"

definition getDensity :: "double \<Rightarrow> WeatherData option \<Rightarrow> double" where
  "getDensity altitude weatherData =
     (let temp = getTemperature altitude;
          press = getPressure altitude
      in case weatherData of
           Some w \<Rightarrow>
             (let localTemp = WeatherData.temperature w + Fin 273.15;
                  localPress = WeatherData.pressure w * Fin 100.0;
                  tempRatio = temp / localTemp;
                  pressRatio = press / localPress;
                  temp' = temp * tempRatio;
                  press' = press * pressRatio;
                  vaporPressure = calculateVaporPressure temp' (humidity w);
                  virtualTemp = temp' / (Fin 1.0 - Fin 0.378 * vaporPressure / press')
              in press' / (AtmosphericModel_R * virtualTemp))
         | None \<Rightarrow> press / (AtmosphericModel_R * temp))"

section \<open>Aerodynamic forces (physics.cpp)\<close>

definition getAirDensity :: "WeatherData option \<Rightarrow> double \<Rightarrow> double" where
  "getAirDensity weatherData altitude = getDensity altitude weatherData"

definition calculateReynoldsNumber :: "double \<Rightarrow> double \<Rightarrow> double" where
  "calculateReynoldsNumber velocity altitude =
     (let density = getAirDensity None altitude
      in (density * velocity * (Fin 2 * BALL_RADIUS)) / AIR_VISCOSITY)"

definition calculateDragCoefficient :: "double \<Rightarrow> double" where
  "calculateDragCoefficient reynoldsNumber =
     (if reynoldsNumber < CRITICAL_REYNOLDS then BASE_DRAG_COEFFICIENT
      else if reynoldsNumber > TURBULENT_REYNOLDS then BASE_DRAG_COEFFICIENT * Fin 0.5
      else (let t = (reynoldsNumber - CRITICAL_REYNOLDS)
                      / (TURBULENT_REYNOLDS - CRITICAL_REYNOLDS)
            in BASE_DRAG_COEFFICIENT * (Fin 1.0 - Fin 0.5 * t)))"

definition calculateSpinDecay :: "double \<Rightarrow> double \<Rightarrow> double" where
  "calculateSpinDecay initialSpin time = initialSpin * dexp (- SPIN_DECAY_RATE * time)"

text \<open>
  The same function on finite arguments with the rounding of double arithmetic made
  explicit: \<open>rnd\<close> rounds the result of each of the two multiplications, \<open>fexp\<close> is the
  \<^verbatim>\<open>exp\<close> of the C library, whose result is a double. Without rounding (\<open>rnd\<close> the
  identity, \<open>fexp\<close> the exponential function) it is \<open>calculateSpinDecay\<close>.
\<close>

definition calculateSpinDecay_rounded ::
  "(real \<Rightarrow> real) \<Rightarrow> (real \<Rightarrow> real) \<Rightarrow> real \<Rightarrow> real \<Rightarrow> real" where
  "calculateSpinDecay_rounded rnd fexp initialSpin time
     = rnd (initialSpin * fexp (rnd (- 0.045 * time)))"

definition calculateLiftCoefficient :: "double \<Rightarrow> double \<Rightarrow> double" where
  "calculateLiftCoefficient spinRate velocity =
     (let spinFactor = (spinRate * M_PI / Fin 30.0) * BALL_RADIUS / velocity;
          roughnessEffect = Fin 1.0 + (SURFACE_ROUGHNESS / BALL_RADIUS);
          liftCoef = BASE_LIFT_COEFFICIENT * spinFactor * roughnessEffect
      in dmin liftCoef MAX_LIFT_COEFFICIENT)"

definition calculateMagnusForce ::
  "double \<Rightarrow> double \<Rightarrow> double \<Rightarrow> SpinAxis \<Rightarrow> double \<Rightarrow> double" where
  "calculateMagnusForce spinRate velocity radius spinAxis time =
     (let currentSpin = calculateSpinDecay spinRate time;
          tiltRad = tilt spinAxis * M_PI / Fin 180.0;
          directionRad = direction spinAxis * M_PI / Fin 180.0;
          verticalSpin = currentSpin * dcos tiltRad;
          horizontalSpin = currentSpin * dsin tiltRad;
          liftCoef = calculateLiftCoefficient currentSpin velocity;
          forceMagnitude = Fin 0.5 * STANDARD_AIR_DENSITY * BALL_AREA * liftCoef
                             * velocity * velocity;
          verticalForce = forceMagnitude * (verticalSpin / currentSpin);
          horizontalForce = forceMagnitude * (horizontalSpin / currentSpin)
      in verticalForce * dcos directionRad + horizontalForce * dsin directionRad)"

definition getWindGradient :: "double \<Rightarrow> double \<Rightarrow> double" where
  "getWindGradient baseWindSpeed altitude =
     (let referenceHeight = Fin 10.0;
          hellmannExponent = Fin 0.143
      in if altitude < Fin 0.1 then baseWindSpeed
         else baseWindSpeed * dpow (altitude / referenceHeight) hellmannExponent)"

definition calculateRelativeVelocity ::
  "double \<Rightarrow> double \<Rightarrow> double \<Rightarrow> double \<Rightarrow> double \<times> double" where
  "calculateRelativeVelocity velocityX velocityY windSpeed windAngle =
     (let windAngleRad = windAngle * M_PI / Fin 180.0;
          windVx = windSpeed * dcos windAngleRad;
          windVy = windSpeed * dsin windAngleRad
      in (velocityX - windVx, velocityY - windVy))"


section \<open>Validation layer (physics_validation.h)\<close>

text \<open>A statement that may throw, followed by the rest of the block.\<close>

definition andThen :: "exn + unit \<Rightarrow> exn + 'a \<Rightarrow> exn + 'a" where
  "andThen stmt rest = (case stmt of Inl e \<Rightarrow> Inl e | Inr u \<Rightarrow> rest)"

definition validateLaunchParameters ::
  "double \<Rightarrow> double \<Rightarrow> double \<Rightarrow> double \<Rightarrow> double \<Rightarrow> exn + unit" where
  "validateLaunchParameters initialSpeed launchAngle spinRate windSpeed windAngle =
     (if initialSpeed < Fin 0.0
        then Inl (PhysicsValidationError ''Initial speed cannot be negative'')
      else if initialSpeed > Fin 100.0
        then Inl (PhysicsValidationError ''Initial speed exceeds maximum physical limit'')
      else if launchAngle < Fin (- 90.0) \<or> launchAngle > Fin 90.0
        then Inl (PhysicsValidationError ''Launch angle must be between -90 and 90 degrees'')
      else if spinRate < Fin 0.0
        then Inl (PhysicsValidationError ''Spin rate cannot be negative'')
      else if spinRate > Fin 10000.0
        then Inl (PhysicsValidationError ''Spin rate exceeds maximum physical limit'')
      else if windSpeed < Fin 0.0
        then Inl (PhysicsValidationError ''Wind speed cannot be negative'')
      else if windSpeed > Fin 50.0
        then Inl (PhysicsValidationError ''Wind speed exceeds maximum expected value'')
      else if windAngle < Fin 0.0 \<or> windAngle > Fin 360.0
        then Inl (PhysicsValidationError ''Wind angle must be between 0 and 360 degrees'')
      else Inr ())"

definition validateTrajectoryPoint :: "TrajectoryPoint \<Rightarrow> double \<Rightarrow> exn + unit" where
  "validateTrajectoryPoint point maxDistance =
     (if \<not> isfinite (x point) \<or> \<not> isfinite (y point)
        then Inl (PhysicsValidationError ''Non-finite values in trajectory calculation'')
      else if x point < Fin 0.0 \<or> x point > maxDistance
        then Inl (PhysicsValidationError ''Trajectory point X coordinate out of bounds'')
      else if y point < Fin (- 0.1) \<or> y point > Fin 500.0
        then Inl (PhysicsValidationError ''Trajectory point Y coordinate out of bounds'')
      else Inr ())"

definition validatePhysicalQuantity ::
  "double \<Rightarrow> double \<Rightarrow> double \<Rightarrow> string \<Rightarrow> exn + unit" where
  "validatePhysicalQuantity v minValue maxValue name =
     (if \<not> isfinite v
        then Inl (PhysicsValidationError (name @ '' calculation resulted in non-finite value''))
      else if v < minValue \<or> v > maxValue
        then Inl (PhysicsValidationError (name @ '' out of valid range''))
      else Inr ())"

section \<open>Trajectory integrator (trajectory.cpp)\<close>

definition MIN_TIMESTEP :: double where "MIN_TIMESTEP = Fin 0.00005"
definition MAX_TIMESTEP :: double where "MAX_TIMESTEP = Fin 0.003"
definition BASE_TIMESTEP :: double where "BASE_TIMESTEP = Fin 0.0003"
definition VELOCITY_SCALE :: double where "VELOCITY_SCALE = Fin 0.045"
definition ACCEL_SCALE :: double where "ACCEL_SCALE = Fin 0.15"
definition SPIN_SCALE :: double where "SPIN_SCALE = Fin 0.0002"
definition HEIGHT_SCALE :: double where "HEIGHT_SCALE = Fin 0.2"
definition SMOOTH_FACTOR :: double where "SMOOTH_FACTOR = Fin 0.8"
definition MAX_ITERATIONS :: nat where "MAX_ITERATIONS = 10000"

text \<open>
  The local variables of \<^verbatim>\<open>calculateTrajectoryWithValidation\<close> that live across
  iterations of the simulation loop: \<open>x_pos\<close> and \<open>y_pos\<close> are the locals \<^verbatim>\<open>x\<close> and
  \<^verbatim>\<open>y\<close>, \<open>res\<close> is the local \<^verbatim>\<open>result\<close>. The iteration counter is an argument of the
  loop.
\<close>

record Locals =
  x_pos :: double
  y_pos :: double
  prevY :: double
  vx :: double
  vy :: double
  prevTimeStep :: double
  prevVelocity :: Vector3D
  timeStep :: double
  res :: TrajectoryResult

text \<open>
  Lines 40 to 55: the locals before the loop, for the initial velocity \<open>(vx0, vy0)\<close>.
  The trajectory starts with the point \<open>(0, 0)\<close>.
\<close>

definition initialLocals :: "double \<Rightarrow> double \<Rightarrow> Locals" where
  "initialLocals vx0 vy0 =
     \<lparr>x_pos = Fin 0.0, y_pos = Fin 0.0, prevY = Fin 0.0,
      vx = vx0, vy = vy0,
      prevTimeStep = BASE_TIMESTEP,
      prevVelocity = Vector3D vx0 vy0 (Fin 0.0),
      timeStep = MIN_TIMESTEP,
      res = \<lparr>trajectory = [\<lparr>x = Fin 0.0, y = Fin 0.0\<rparr>],
              distance = Fin 0.0, apex = Fin 0.0\<rparr>\<rparr>"

text \<open>Lines 70 to 107: the adaptive time step of one iteration.\<close>

definition adaptiveTimeStep :: "double \<Rightarrow> Locals \<Rightarrow> double \<Rightarrow> double" where
  "adaptiveTimeStep spinRate s relV =
     (let currentVelocity = Vector3D (vx s) (vy s) (Fin 0.0);
          acceleration = scale (vminus currentVelocity (prevVelocity s))
                               (Fin 1.0 / prevTimeStep s);
          accelMagnitude = magnitude acceleration;
          launchProgress =
            dmin (Fin 1.0) (Fin (real (length (trajectory (res s)))) / Fin 12.0);
          landingFactor =
            (if vy s < Fin 0
             then dmax (Fin 0.0) (dmin (Fin 1.0) (dpow (y_pos s / Fin 5.0) (Fin 0.8)))
             else Fin 1.0);
          velocityFactor = dexp (- VELOCITY_SCALE * dpow relV (Fin 0.85));
          accelFactor = dexp (- ACCEL_SCALE * dpow accelMagnitude (Fin 0.8));
          spinFactor = dexp (- SPIN_SCALE * dpow spinRate (Fin 0.9));
          heightFactor =
            dmin (Fin 1.0) (dpow (Fin 1.0 - dexp (- HEIGHT_SCALE * y_pos s)) (Fin 0.85));
          phaseFactor = Fin 0.4 + (Fin 0.6 * launchProgress * landingFactor);
          rawTimeStep = BASE_TIMESTEP * velocityFactor * accelFactor * spinFactor
                          * heightFactor * phaseFactor;
          smoothed = (SMOOTH_FACTOR * prevTimeStep s)
                       + ((Fin 1.0 - SMOOTH_FACTOR) * rawTimeStep)
      in dmin MAX_TIMESTEP (dmax MIN_TIMESTEP smoothed))"

text \<open>
  Lines 113 to 158: the new velocity \<open>(vx, vy)\<close>, from drag, Magnus force and gravity
  when the relative velocity is above 1 mm/s, from gravity alone otherwise.
\<close>

definition applyForces ::
  "double \<Rightarrow> double \<Rightarrow> SpinAxis \<Rightarrow> Locals \<Rightarrow> double \<Rightarrow> double \<Rightarrow> double \<Rightarrow> double
     \<Rightarrow> exn + (double \<times> double)" where
  "applyForces initialSpeed spinRate spinAxis s relVx relVy relV dt =
     (if relV > Fin 0.001 then
        (let reynoldsNumber = calculateReynoldsNumber relV (y_pos s);
             dragCoef = calculateDragCoefficient reynoldsNumber;
             density = getAirDensity None (y_pos s)
         in andThen (validatePhysicalQuantity reynoldsNumber (Fin 0.0) (Fin 1000000)
                       ''Reynolds number'')
           (andThen (validatePhysicalQuantity dragCoef (Fin 0.0) (Fin 1.0)
                       ''Drag coefficient'')
           (andThen (validatePhysicalQuantity density (Fin 0.5) (Fin 1.5) ''Air density'')
           (let dragForce = Fin 0.5 * density * dragCoef * BALL_AREA * relV * relV;
                elapsedTime = x_pos s / initialSpeed;
                magnusForce = calculateMagnusForce spinRate relV BALL_RADIUS spinAxis
                                elapsedTime
            in andThen (validatePhysicalQuantity dragForce (Fin 0.0) (Fin 100.0)
                          ''Drag force'')
              (andThen (validatePhysicalQuantity magnusForce (Fin (- 50.0)) (Fin 50.0)
                          ''Magnus force'')
              (let invRelV = Fin 1.0 / relV;
                   dragAx = - dragForce * relVx * invRelV / BALL_MASS;
                   dragAy = - dragForce * relVy * invRelV / BALL_MASS;
                   magnusAx = - magnusForce * relVy * invRelV / BALL_MASS;
                   magnusAy = magnusForce * relVx * invRelV / BALL_MASS
               in andThen (validatePhysicalQuantity dragAx (Fin (- 1000.0)) (Fin 1000.0)
                             ''Drag acceleration X'')
                 (andThen (validatePhysicalQuantity dragAy (Fin (- 1000.0)) (Fin 1000.0)
                             ''Drag acceleration Y'')
                 (andThen (validatePhysicalQuantity magnusAx (Fin (- 500.0)) (Fin 500.0)
                             ''Magnus acceleration X'')
                 (andThen (validatePhysicalQuantity magnusAy (Fin (- 500.0)) (Fin 500.0)
                             ''Magnus acceleration Y'')
                 (Inr (vx s + (dragAx + magnusAx) * dt,
                       vy s + (dragAy + magnusAy - GRAVITY) * dt)))))))))))
      else Inr (vx s, vy s - GRAVITY * dt))"

text \<open>
  The \<^verbatim>\<open>abs\<close> of lines 169 and 170 is called without qualification in a file that
  includes only \<^verbatim>\<open><cmath>\<close> and has no using-directive: the overloads for floating-point
  arguments live in namespace \<^verbatim>\<open>std\<close> and are not considered, the call is to the C
  function \<^verbatim>\<open>int abs(int)\<close>. Its double argument is converted to \<^verbatim>\<open>int\<close>, which discards
  the fractional part. The language defines the conversion and the absolute value only
  when the truncated value lies strictly between \<open>-2\<^sup>3\<^sup>1\<close> and \<open>2\<^sup>3\<^sup>1\<close>; the model leaves
  the other arguments unspecified (lemma \<open>advance_abs_int_defined\<close> below: the integrator
  never passes one).
\<close>

definition abs_int :: "double \<Rightarrow> int" where
  "abs_int d =
     (case d of
        Fin a \<Rightarrow>
          (if \<bar>a\<bar> < 2147483648 then \<bar>if a < 0 then \<lceil>a\<rceil> else \<lfloor>a\<rfloor>\<bar> else undefined)
      | _ \<Rightarrow> undefined)"

text \<open>
  Lines 160 to 177: the position update, its validation, the decimated recording of the
  point and the running apex, with the assignments to \<^verbatim>\<open>prevY\<close> (line 59),
  \<^verbatim>\<open>prevTimeStep\<close> and \<^verbatim>\<open>prevVelocity\<close> (lines 110 and 111) that the iteration
  made on the way. The result of \<^verbatim>\<open>abs\<close> is an \<^verbatim>\<open>int\<close>, converted back to double for the
  comparison with 0.1: from the third point on, a point is recorded only when the ball
  is a whole metre or more away from the last recorded point in \<open>x\<close> or in \<open>y\<close>.
  \<^verbatim>\<open>back()\<close> is only evaluated on a trajectory of two or more points.
\<close>

definition advance ::
  "Locals \<Rightarrow> double \<Rightarrow> double \<Rightarrow> double \<Rightarrow> exn + Locals" where
  "advance s dt newVx newVy =
     (let newX = x_pos s + newVx * dt;
          newY = y_pos s + newVy * dt;
          point = \<lparr>x = newX, y = newY\<rparr>
      in andThen (validateTrajectoryPoint point (Fin 1000.0))
        (let traj = trajectory (res s);
             traj' =
               (if length traj < 2
                   \<or> Fin (real_of_int (abs_int (newX - x (last traj)))) > Fin 0.1
                   \<or> Fin (real_of_int (abs_int (newY - y (last traj)))) > Fin 0.1
                then traj @ [point] else traj);
             apex' = (if newY > apex (res s) then newY else apex (res s))
         in Inr (s\<lparr>x_pos := newX, y_pos := newY, prevY := y_pos s,
                   vx := newVx, vy := newVy,
                   prevTimeStep := dt,
                   prevVelocity := Vector3D (vx s) (vy s) (Fin 0.0),
                   timeStep := dt,
                   res := (res s)\<lparr>trajectory := traj', apex := apex'\<rparr>\<rparr>)))"

text \<open>Lines 59 to 177: one iteration of the simulation loop.\<close>

definition loopBody ::
  "double \<Rightarrow> double \<Rightarrow> double \<Rightarrow> double \<Rightarrow> SpinAxis \<Rightarrow> Locals \<Rightarrow> exn + Locals" where
  "loopBody initialSpeed spinRate windSpeed windAngle spinAxis s =
     (let effectiveWindSpeed = getWindGradient windSpeed (y_pos s);
          (relVx, relVy) =
            calculateRelativeVelocity (vx s) (vy s) effectiveWindSpeed windAngle;
          relV = dsqrt (relVx * relVx + relVy * relVy)
      in andThen (validatePhysicalQuantity relV (Fin 0.0) (Fin 200.0) ''Relative velocity'')
        (let dt = adaptiveTimeStep spinRate s relV
         in case applyForces initialSpeed spinRate spinAxis s relVx relVy relV dt of
              Inl e \<Rightarrow> Inl e
            | Inr (newVx, newVy) \<Rightarrow> advance s dt newVx newVy))"

text \<open>
  Line 58: \<^verbatim>\<open>while ((y >= 0.0 || result.trajectory.empty()) && iterationCount++ <
  MAX_ITERATIONS)\<close>. The counter is incremented only when the first operand of
  \<^verbatim>\<open>&&\<close> holds, also by the test that ends the loop. The loop returns the counter
  and the locals at its exit.
\<close>

function simulationLoop ::
  "double \<Rightarrow> double \<Rightarrow> double \<Rightarrow> double \<Rightarrow> SpinAxis \<Rightarrow> nat \<Rightarrow> Locals
     \<Rightarrow> exn + (nat \<times> Locals)" where
  "simulationLoop initialSpeed spinRate windSpeed windAngle spinAxis iterationCount s =
     (if y_pos s \<ge> Fin 0.0 \<or> trajectory (res s) = [] then
        (if iterationCount < MAX_ITERATIONS then
           (case loopBody initialSpeed spinRate windSpeed windAngle spinAxis s of
              Inl e \<Rightarrow> Inl e
            | Inr s' \<Rightarrow>
                simulationLoop initialSpeed spinRate windSpeed windAngle spinAxis
                  (Suc iterationCount) s')
         else Inr (Suc iterationCount, s))
      else Inr (iterationCount, s))"
  by pat_completeness auto
termination
  by (relation "measure (\<lambda>(a, b, c, d, e, n, s). MAX_ITERATIONS - n)") auto

declare simulationLoop.simps [simp del]

text \<open>Lines 180 to 198: the code after the loop.\<close>

definition afterLoop :: "nat \<Rightarrow> Locals \<Rightarrow> TrajectoryResultWithStatus" where
  "afterLoop iterationCount s =
     (if iterationCount \<ge> MAX_ITERATIONS then
        \<lparr>status = ConvergenceFailure,
         errorMessage =
           ''Trajectory calculation failed to converge within maximum iterations'',
         result = None\<rparr>
      else
        (let traj = trajectory (res s);
             traj' =
               (if traj \<noteq> [] \<and> y_pos s < Fin 0.0 \<and> prevY s > Fin 0.0
                then (let t = - prevY s / (y_pos s - prevY s);
                          newX = x (last traj) - t * vx s * timeStep s
                      in butlast traj @ [\<lparr>x = newX, y = Fin 0.0\<rparr>])
                else traj);
             r = (res s)\<lparr>trajectory := traj', distance := x (last traj')\<rparr>
         in \<lparr>status = Success, errorMessage = [], result = Some r\<rparr>))"

text \<open>Lines 15 to 198: the body of the \<^verbatim>\<open>try\<close> block.\<close>

definition tryBlock ::
  "double \<Rightarrow> double \<Rightarrow> double \<Rightarrow> double \<Rightarrow> double \<Rightarrow> SpinAxis
     \<Rightarrow> exn + TrajectoryResultWithStatus" where
  "tryBlock initialSpeed launchAngle spinRate windSpeed windAngle spinAxis =
     andThen (validateLaunchParameters initialSpeed launchAngle spinRate windSpeed windAngle)
       (let angleRad = launchAngle * M_PI / Fin 180.0;
            vx0 = initialSpeed * dcos angleRad;
            vy0 = initialSpeed * dsin angleRad
        in case simulationLoop initialSpeed spinRate windSpeed windAngle spinAxis 0
                  (initialLocals vx0 vy0) of
             Inl e \<Rightarrow> Inl e
           | Inr (iterationCount, s) \<Rightarrow> Inr (afterLoop iterationCount s))"

text \<open>
  The handlers: a \<^verbatim>\<open>PhysicsValidationError\<close> is caught by the first one, wherever in
  the block it was thrown; any other exception by the second.
\<close>

definition calculateTrajectoryWithValidation ::
  "double \<Rightarrow> double \<Rightarrow> double \<Rightarrow> double \<Rightarrow> double \<Rightarrow> SpinAxis
     \<Rightarrow> TrajectoryResultWithStatus" where
  "calculateTrajectoryWithValidation initialSpeed launchAngle spinRate windSpeed windAngle
       spinAxis =
     (case tryBlock initialSpeed launchAngle spinRate windSpeed windAngle spinAxis of
        Inr r \<Rightarrow> r
      | Inl (PhysicsValidationError msg) \<Rightarrow>
          \<lparr>status = InvalidInput, errorMessage = msg, result = None\<rparr>
      | Inl (StdException msg) \<Rightarrow>
          \<lparr>status = CalculationError, errorMessage = ''Calculation error: '' @ msg,
           result = None\<rparr>)"

text \<open>
  The legacy entry point (lines 214 to 227). \<^verbatim>\<open>*result.result\<close> reads the optional,
  which is present whenever \<^verbatim>\<open>isSuccess()\<close> holds.
\<close>

definition calculateTrajectory ::
  "double \<Rightarrow> double \<Rightarrow> double \<Rightarrow> double \<Rightarrow> double \<Rightarrow> SpinAxis \<Rightarrow> TrajectoryResult" where
  "calculateTrajectory initialSpeed launchAngle spinRate windSpeed windAngle spinAxis =
     (let r = calculateTrajectoryWithValidation initialSpeed launchAngle spinRate windSpeed
                windAngle spinAxis
      in if isSuccess r
         then the (result r)
         else \<lparr>trajectory = [], distance = Fin 0.0, apex = Fin 0.0\<rparr>)"


section \<open>Predicates of the statements\<close>

text \<open>The exceptions that the first handler catches.\<close>

fun is_validation_error :: "exn \<Rightarrow> bool" where
  "is_validation_error (PhysicsValidationError msg) = True"
| "is_validation_error (StdException msg) = False"

text \<open>A finite value between two bounds; two finite values less than 1 apart.\<close>

fun in_range :: "real \<Rightarrow> real \<Rightarrow> double \<Rightarrow> bool" where
  "in_range lo hi (Fin a) = (lo \<le> a \<and> a \<le> hi)"
| "in_range lo hi PInf = False"
| "in_range lo hi NInf = False"
| "in_range lo hi NaN = False"


text \<open>A point that has passed \<^verbatim>\<open>validateTrajectoryPoint\<close>.\<close>

definition validated :: "TrajectoryPoint \<Rightarrow> bool" where
  "validated p \<longleftrightarrow> in_range 0 1000 (x p) \<and> in_range (- 0.1) 500 (y p)"


text \<open>
  \<^verbatim>\<open>SpinAxis()\<close>, the default argument of the entry points: pure backspin along the
  target line.
\<close>

definition defaultSpinAxis :: SpinAxis where
  "defaultSpinAxis = \<lparr>tilt = Fin 0.0, direction = Fin 0.0\<rparr>"

text \<open>
  The locals after a first iteration that ran with time step \<open>dt\<close>, left the velocity
  \<open>(a, b)\<close> and recorded the point \<open>(px, py)\<close>.
\<close>

definition afterFirst ::
  "double \<Rightarrow> double \<Rightarrow> real \<Rightarrow> real \<Rightarrow> real \<Rightarrow> real \<Rightarrow> real \<Rightarrow> Locals" where
  "afterFirst vx0 vy0 dt a b px py =
     (initialLocals vx0 vy0)\<lparr>x_pos := Fin px, y_pos := Fin py, prevY := Fin 0,
        vx := Fin a, vy := Fin b, prevTimeStep := Fin dt,
        prevVelocity := Vector3D vx0 vy0 (Fin 0), timeStep := Fin dt,
        res := \<lparr>trajectory = [\<lparr>x = Fin 0, y = Fin 0\<rparr>, \<lparr>x = Fin px, y = Fin py\<rparr>],
                distance = Fin 0, apex = Fin (max 0 py)\<rparr>\<rparr>"

section \<open>Arithmetic with the special values\<close>

lemma times_NaN_right: "a * NaN = NaN"
  by (cases a) simp_all

lemma plus_NaN_right: "a + NaN = NaN"
  by (cases a) simp_all

lemma divide_NaN_right: "a / NaN = NaN"
  by (cases a) simp_all

section \<open>The drag coefficient\<close>

lemma drag_laminar: "r \<le> 40000 \<Longrightarrow> calculateDragCoefficient (Fin r) = Fin 0.47"
  by (simp add: calculateDragCoefficient_def CRITICAL_REYNOLDS_def TURBULENT_REYNOLDS_def
      BASE_DRAG_COEFFICIENT_def minus_double_def)

lemma drag_turbulent: "400000 \<le> r \<Longrightarrow> calculateDragCoefficient (Fin r) = Fin (0.5 * 0.47)"
  by (simp add: calculateDragCoefficient_def CRITICAL_REYNOLDS_def TURBULENT_REYNOLDS_def
      BASE_DRAG_COEFFICIENT_def minus_double_def)

lemma drag_transition:
  "40000 \<le> r \<Longrightarrow> r \<le> 400000 \<Longrightarrow>
   calculateDragCoefficient (Fin r) = Fin (0.47 * (1 - 0.5 * ((r - 40000) / 360000)))"
  by (simp add: calculateDragCoefficient_def CRITICAL_REYNOLDS_def TURBULENT_REYNOLDS_def
      BASE_DRAG_COEFFICIENT_def minus_double_def)

lemma drag_antimono:
  "a \<le> b \<Longrightarrow> calculateDragCoefficient b \<le> calculateDragCoefficient a"
  by (cases a; cases b)
    (simp_all add: calculateDragCoefficient_def CRITICAL_REYNOLDS_def TURBULENT_REYNOLDS_def
      BASE_DRAG_COEFFICIENT_def minus_double_def)

text \<open>
  Claim C4. \<^verbatim>\<open>calculateDragCoefficient\<close> equals \<^verbatim>\<open>BASE_DRAG_COEFFICIENT\<close> (0.47) for
  every Reynolds number up to \<open>4e4\<close>, half of it from \<open>4e5\<close> on, and in between
  \<^verbatim>\<open>BASE_DRAG_COEFFICIENT\<close> times the multiplier interpolated linearly from 1.0 to 0.5
  in \<open>t = (Re - 4e4) / (4e5 - 4e4)\<close>; it is non-increasing in the Reynolds number (the
  infinities included).
\<close>

theorem calculateDragCoefficient_regimes:
  "BASE_DRAG_COEFFICIENT = Fin 0.47
   \<and> (r \<le> 40000 \<longrightarrow> calculateDragCoefficient (Fin r) = BASE_DRAG_COEFFICIENT)
   \<and> (400000 \<le> r \<longrightarrow> calculateDragCoefficient (Fin r) = Fin 0.5 * BASE_DRAG_COEFFICIENT)
   \<and> (40000 \<le> r \<and> r \<le> 400000 \<longrightarrow>
        calculateDragCoefficient (Fin r)
          = BASE_DRAG_COEFFICIENT
              * Fin (1.0 + (0.5 - 1.0) * ((r - 40000) / (400000 - 40000))))
   \<and> (a \<le> b \<longrightarrow> calculateDragCoefficient b \<le> calculateDragCoefficient a)"
proof -
  have base: "BASE_DRAG_COEFFICIENT = Fin 0.47"
    by (simp add: BASE_DRAG_COEFFICIENT_def)
  have mid: "calculateDragCoefficient (Fin r)
      = BASE_DRAG_COEFFICIENT * Fin (1.0 + (0.5 - 1.0) * ((r - 40000) / (400000 - 40000)))"
    if "40000 \<le> r" "r \<le> 400000"
    using drag_transition [OF that] by (simp add: base)
  show ?thesis
    using mid drag_laminar [of r] drag_turbulent [of r] drag_antimono [of a b]
    by (simp add: BASE_DRAG_COEFFICIENT_def)
qed

theorem calculateDragCoefficient_regimes_witness:
  "calculateDragCoefficient (Fin 30000) = Fin 0.47
   \<and> calculateDragCoefficient (Fin 500000) = Fin 0.235
   \<and> calculateDragCoefficient (Fin 220000) = Fin 0.3525
   \<and> calculateDragCoefficient (Fin 220000) \<le> calculateDragCoefficient (Fin 30000)"
  using calculateDragCoefficient_regimes [of 30000 "Fin 30000" "Fin 220000"]
    calculateDragCoefficient_regimes [of 500000 "Fin 30000" "Fin 220000"]
    calculateDragCoefficient_regimes [of 220000 "Fin 30000" "Fin 220000"]
  by (simp add: BASE_DRAG_COEFFICIENT_def)

section \<open>Spin decay\<close>


text \<open>
  The order between the values at two times does not depend on exact arithmetic: it
  holds for every rounding and every \<^verbatim>\<open>exp\<close> that are monotone.
\<close>

lemma calculateSpinDecay_rounded_exact:
  "calculateSpinDecay (Fin S) (Fin t) = Fin (calculateSpinDecay_rounded (\<lambda>v. v) exp S t)"
  by (simp add: calculateSpinDecay_def calculateSpinDecay_rounded_def SPIN_DECAY_RATE_def)

lemma calculateSpinDecay_rounded_antimono:
  assumes "mono rnd" and "mono fexp" and "0 \<le> S" and "t1 \<le> t2"
  shows "calculateSpinDecay_rounded rnd fexp S t2 \<le> calculateSpinDecay_rounded rnd fexp S t1"
proof -
  from assms(4) have "- 0.045 * t2 \<le> - 0.045 * t1"
    by simp
  with assms(1) have "rnd (- 0.045 * t2) \<le> rnd (- 0.045 * t1)"
    by (rule monoD)
  with assms(2) have "fexp (rnd (- 0.045 * t2)) \<le> fexp (rnd (- 0.045 * t1))"
    by (rule monoD)
  from this assms(3) have "S * fexp (rnd (- 0.045 * t2)) \<le> S * fexp (rnd (- 0.045 * t1))"
    by (rule mult_left_mono)
  with assms(1) show ?thesis
    unfolding calculateSpinDecay_rounded_def by (rule monoD)
qed



section \<open>The layer lookup of the atmospheric model\<close>

lemma layers_length: "length layers = 5"
  by (simp add: layers_def)

lemma layer_nth:
  "layers ! 0 = mkLayer 0 288.15 101325.0 (- 0.0065)"
  "layers ! Suc 0 = mkLayer 11000 216.65 22632.1 0.0"
  "layers ! Suc (Suc 0) = mkLayer 20000 216.65 5474.89 0.001"
  "layers ! Suc (Suc (Suc 0)) = mkLayer 32000 228.65 868.019 0.0028"
  "layers ! Suc (Suc (Suc (Suc 0))) = mkLayer 47000 270.65 110.906 0.0"
  by (simp_all add: layers_def)

lemma findLayerIndex_Fin:
  "findLayerIndex (Fin h) =
     (if h < 11000 then 0 else if h < 20000 then Suc 0 else if h < 32000 then Suc (Suc 0)
      else if h < 47000 then Suc (Suc (Suc 0)) else Suc (Suc (Suc (Suc 0))))"
  unfolding findLayerIndex_def
  apply (subst findLayerLoop.simps)
  apply (subst findLayerLoop.simps)
  apply (subst findLayerLoop.simps)
  apply (subst findLayerLoop.simps)
  apply (subst findLayerLoop.simps)
  apply (simp add: layers_length layer_nth mkLayer_def)
  done

lemma findLayerLoop_in_range: "findLayerLoop altitude i < length layers"
  apply (induction altitude i rule: findLayerLoop.induct)
  apply (subst findLayerLoop.simps)
  apply (auto simp add: layers_length)
  done

lemma getTemperature_Fin:
  "getTemperature (Fin h) =
     (if h < 11000 then Fin (288.15 + (- 0.0065) * (h - 0))
      else if h < 20000 then Fin (216.65 + 0 * (h - 11000))
      else if h < 32000 then Fin (216.65 + 0.001 * (h - 20000))
      else if h < 47000 then Fin (228.65 + 0.0028 * (h - 32000))
      else Fin (270.65 + 0 * (h - 47000)))"
  by (simp add: getTemperature_def getLayer_def findLayerIndex_Fin layer_nth mkLayer_def
      minus_double_def Let_def)

text \<open>
  Claim C8. For every real altitude \<open>h\<close> the lookup stays inside the layer table (it
  cannot fail) and \<^verbatim>\<open>getTemperature\<close> returns \<open>T_base + lapseRate \<cdot> (h - h_base)\<close> of the
  selected layer: layer 0 for every altitude below 11000 m, negative ones included, and
  the last layer for every altitude from 47000 m on. (In between, the selected layer is
  the one whose base is the highest base not above \<open>h\<close>.)
\<close>

theorem getTemperature_layer_lookup:
  "findLayerIndex (Fin h) < length layers
   \<and> getTemperature (Fin h)
       = AtmosphericLayer.temperature (getLayer (Fin h))
           + lapseRate (getLayer (Fin h)) * (Fin h - baseAltitude (getLayer (Fin h)))
   \<and> (h < 11000 \<longrightarrow>
        getLayer (Fin h) = layers ! 0
        \<and> getTemperature (Fin h) = Fin (288.15 + (- 0.0065) * (h - 0)))
   \<and> (47000 \<le> h \<longrightarrow>
        getLayer (Fin h) = last layers
        \<and> getTemperature (Fin h) = Fin (270.65 + 0 * (h - 47000)))
   \<and> isfinite (getTemperature (Fin h))
   \<and> (11000 \<le> h \<and> h < 20000 \<longrightarrow>
        getLayer (Fin h) = layers ! 1
        \<and> getTemperature (Fin h) = Fin (216.65 + 0 * (h - 11000)))
   \<and> (20000 \<le> h \<and> h < 32000 \<longrightarrow>
        getLayer (Fin h) = layers ! 2
        \<and> getTemperature (Fin h) = Fin (216.65 + 0.001 * (h - 20000)))
   \<and> (32000 \<le> h \<and> h < 47000 \<longrightarrow>
        getLayer (Fin h) = layers ! 3
        \<and> getTemperature (Fin h) = Fin (228.65 + 0.0028 * (h - 32000)))"
proof -
  have "findLayerIndex (Fin h) < length layers"
    unfolding findLayerIndex_def by (rule findLayerLoop_in_range)
  moreover have "getTemperature (Fin h)
       = AtmosphericLayer.temperature (getLayer (Fin h))
           + lapseRate (getLayer (Fin h)) * (Fin h - baseAltitude (getLayer (Fin h)))"
    by (simp add: getTemperature_def Let_def)
  moreover have "getLayer (Fin h) = layers ! 0" if "h < 11000"
    using that by (simp add: getLayer_def findLayerIndex_Fin)
  moreover have "getLayer (Fin h) = last layers" if "47000 \<le> h"
    using that by (simp add: getLayer_def findLayerIndex_Fin layer_nth) (simp add: layers_def)
  moreover have "isfinite (getTemperature (Fin h))"
    by (simp add: getTemperature_Fin)
  moreover have "getLayer (Fin h) = layers ! 1" if "11000 \<le> h" "h < 20000"
    using that by (simp add: getLayer_def findLayerIndex_Fin)
  moreover have "getLayer (Fin h) = layers ! 2" if "20000 \<le> h" "h < 32000"
    using that by (simp add: getLayer_def findLayerIndex_Fin numeral_2_eq_2)
  moreover have "getLayer (Fin h) = layers ! 3" if "32000 \<le> h" "h < 47000"
    using that by (simp add: getLayer_def findLayerIndex_Fin numeral_3_eq_3)
  ultimately show ?thesis
    by (simp add: getTemperature_Fin)
qed

theorem getTemperature_layer_lookup_witness:
  "getTemperature (Fin (- 100)) = Fin 288.8
   \<and> getLayer (Fin (- 100)) = layers ! 0
   \<and> getTemperature (Fin 50000) = Fin 270.65
   \<and> getLayer (Fin 50000) = last layers
   \<and> getTemperature (Fin 25000) = Fin 221.65
   \<and> getLayer (Fin 25000) = layers ! 2"
proof -
  have low: "(- 100 :: real) < 11000" and high: "(47000 :: real) \<le> 50000"
    and mid: "(20000 :: real) \<le> 25000 \<and> (25000 :: real) < 32000"
    by simp_all
  from getTemperature_layer_lookup [of "- 100"] low
  have 1: "getLayer (Fin (- 100)) = layers ! 0"
    and 2: "getTemperature (Fin (- 100)) = Fin (288.15 + (- 0.0065) * (- 100 - 0))"
    by blast+
  from getTemperature_layer_lookup [of 50000] high
  have 3: "getLayer (Fin 50000) = last layers"
    and 4: "getTemperature (Fin 50000) = Fin (270.65 + 0 * (50000 - 47000))"
    by blast+
  from getTemperature_layer_lookup [of 25000] mid
  have 5: "getLayer (Fin 25000) = layers ! 2"
    and 6: "getTemperature (Fin 25000) = Fin (216.65 + 0.001 * (25000 - 20000))"
    by blast+
  from 2 have "getTemperature (Fin (- 100)) = Fin 288.8" by simp
  moreover from 4 have "getTemperature (Fin 50000) = Fin 270.65" by simp
  moreover from 6 have "getTemperature (Fin 25000) = Fin 221.65" by simp
  ultimately show ?thesis using 1 3 5 by blast
qed

section \<open>The statuses of a result\<close>

text \<open>Every exception that the block throws is a \<^verbatim>\<open>PhysicsValidationError\<close>.\<close>

lemma andThen_Inl:
  "andThen stmt rest = Inl e \<Longrightarrow> stmt = Inl e \<or> (stmt = Inr () \<and> rest = Inl e)"
  by (cases stmt) (simp_all add: andThen_def)

lemma andThen_Inr:
  "andThen stmt rest = Inr v \<Longrightarrow> stmt = Inr () \<and> rest = Inr v"
  by (cases stmt) (simp_all add: andThen_def)

lemma vpq_Inl:
  "validatePhysicalQuantity v lo hi name = Inl e \<Longrightarrow> is_validation_error e"
  by (auto simp add: validatePhysicalQuantity_def split: if_splits)

lemma vlp_Inl: "validateLaunchParameters a b c d f = Inl e \<Longrightarrow> is_validation_error e"
  by (auto simp add: validateLaunchParameters_def split: if_splits)

lemma vtp_Inl: "validateTrajectoryPoint p m = Inl e \<Longrightarrow> is_validation_error e"
  by (auto simp add: validateTrajectoryPoint_def split: if_splits)

lemma applyForces_Inl:
  "applyForces v0 sp ax s rx ry rv dt = Inl e \<Longrightarrow> is_validation_error e"
  unfolding applyForces_def Let_def
  by (auto split: if_splits dest!: andThen_Inl dest: vpq_Inl)

lemma advance_Inl: "advance s dt a b = Inl e \<Longrightarrow> is_validation_error e"
  unfolding advance_def Let_def
  by (auto dest!: andThen_Inl dest: vtp_Inl)

lemma loopBody_Inl: "loopBody v0 sp w wa ax s = Inl e \<Longrightarrow> is_validation_error e"
  unfolding loopBody_def Let_def
  by (auto split: prod.splits sum.splits dest!: andThen_Inl
      dest: vpq_Inl applyForces_Inl advance_Inl)

lemma simulationLoop_Inl:
  "simulationLoop v0 sp w wa ax n s = Inl e \<Longrightarrow> is_validation_error e"
proof (induction v0 sp w wa ax n s rule: simulationLoop.induct)
  case (1 v0 sp w wa ax n s)
  show ?case
  proof (cases "(y_pos s \<ge> Fin 0.0 \<or> trajectory (res s) = []) \<and> n < MAX_ITERATIONS")
    case False
    with "1.prems" show ?thesis
      by (subst (asm) simulationLoop.simps) (auto split: if_splits)
  next
    case True
    show ?thesis
    proof (cases "loopBody v0 sp w wa ax s")
      case (Inl e')
      with True "1.prems" have "e' = e"
        by (subst (asm) simulationLoop.simps) auto
      with Inl show ?thesis by (auto dest: loopBody_Inl)
    next
      case (Inr s')
      with True "1.prems" have "simulationLoop v0 sp w wa ax (Suc n) s' = Inl e"
        by (subst (asm) simulationLoop.simps) auto
      with "1.IH" [of s'] True Inr show ?thesis by blast
    qed
  qed
qed

lemma tryBlock_Inl: "tryBlock v0 la sp w wa ax = Inl e \<Longrightarrow> is_validation_error e"
  unfolding tryBlock_def Let_def
  by (auto split: sum.splits prod.splits dest!: andThen_Inl dest: vlp_Inl simulationLoop_Inl)

lemma tryBlock_Inr:
  "tryBlock v0 la sp w wa ax = Inr r \<Longrightarrow> \<exists>n s. r = afterLoop n s"
  unfolding tryBlock_def Let_def
  by (auto split: sum.splits prod.splits dest!: andThen_Inr)

lemma afterLoop_shape:
  "(status (afterLoop n s) = Success \<and> result (afterLoop n s) \<noteq> None
      \<and> errorMessage (afterLoop n s) = [])
   \<or> (status (afterLoop n s) = ConvergenceFailure \<and> result (afterLoop n s) = None)"
  by (simp add: afterLoop_def Let_def)

text \<open>No validation failure reaches the second handler.\<close>

lemma never_CalculationError:
  "status (calculateTrajectoryWithValidation v0 la sp w wa ax) \<noteq> CalculationError"
proof (cases "tryBlock v0 la sp w wa ax")
  case (Inl e)
  with tryBlock_Inl [OF Inl] show ?thesis
    by (cases e) (simp_all add: calculateTrajectoryWithValidation_def)
next
  case (Inr r)
  from tryBlock_Inr [OF Inr] obtain n s where "r = afterLoop n s" by blast
  with Inr afterLoop_shape [of n s] show ?thesis
    by (auto simp add: calculateTrajectoryWithValidation_def)
qed

section \<open>The invariant of the simulation loop\<close>

lemma vtp_validated: "validateTrajectoryPoint p (Fin 1000.0) = Inr () \<Longrightarrow> validated p"
  by (cases "x p"; cases "y p")
    (auto simp add: validateTrajectoryPoint_def validated_def split: if_splits)





text \<open>
  The arguments of \<^verbatim>\<open>abs\<close> in the integrator are differences between a point that has
  just passed validation and a recorded point: they are finite and fit in an \<^verbatim>\<open>int\<close>.
\<close>

lemma advance_abs_int_defined:
  assumes "validated p" and "validated q"
  shows "\<exists>a b. x p - x q = Fin a \<and> \<bar>a\<bar> \<le> 1000
           \<and> y p - y q = Fin b \<and> \<bar>b\<bar> \<le> 500.1"
proof -
  from assms obtain a b c d where e: "x p = Fin a" "y p = Fin b" "x q = Fin c" "y q = Fin d"
    and r: "0 \<le> a" "a \<le> 1000" "- 0.1 \<le> b" "b \<le> 500"
      "0 \<le> c" "c \<le> 1000" "- 0.1 \<le> d" "d \<le> 500"
    by (cases "x p"; cases "y p"; cases "x q"; cases "y q") (auto simp add: validated_def)
  from r have "\<bar>a - c\<bar> \<le> 1000" "\<bar>b - d\<bar> \<le> 500.1"
    by arith+
  with e show ?thesis
    by (simp add: minus_double_def)
qed



lemma advance_Inr:
  assumes "advance s dt a b = Inr s'"
  shows "validated \<lparr>x = x_pos s', y = y_pos s'\<rparr>"
    and "prevY s' = y_pos s"
    and "trajectory (res s') = trajectory (res s) @ [\<lparr>x = x_pos s', y = y_pos s'\<rparr>]
         \<or> (trajectory (res s') = trajectory (res s) \<and> 2 \<le> length (trajectory (res s))
             \<and> \<not> Fin (real_of_int (abs_int (y_pos s' - y (last (trajectory (res s)))))) > Fin 0.1)"
proof -
  let ?traj = "trajectory (res s)"
  let ?newX = "x_pos s + a * dt" and ?newY = "y_pos s + b * dt"
  let ?recorded = "length ?traj < 2
     \<or> Fin (real_of_int (abs_int (?newX - x (last ?traj)))) > Fin 0.1
     \<or> Fin (real_of_int (abs_int (?newY - y (last ?traj)))) > Fin 0.1"
  from assms
  have v: "validateTrajectoryPoint \<lparr>x = ?newX, y = ?newY\<rparr> (Fin 1000.0) = Inr ()"
    and e: "s' = s\<lparr>x_pos := ?newX, y_pos := ?newY, prevY := y_pos s,
                   vx := a, vy := b, prevTimeStep := dt,
                   prevVelocity := Vector3D (vx s) (vy s) (Fin 0.0), timeStep := dt,
                   res := (res s)\<lparr>trajectory :=
                     (if ?recorded then ?traj @ [\<lparr>x = ?newX, y = ?newY\<rparr>] else ?traj),
                     apex := (if ?newY > apex (res s) then ?newY else apex (res s))\<rparr>\<rparr>"
    unfolding advance_def Let_def by (auto dest!: andThen_Inr)
  from e have xs: "x_pos s' = ?newX" and ys: "y_pos s' = ?newY"
    by simp_all
  from vtp_validated [OF v] xs ys show "validated \<lparr>x = x_pos s', y = y_pos s'\<rparr>"
    by simp
  from e show "prevY s' = y_pos s"
    by simp
  from e xs ys
  show "trajectory (res s') = trajectory (res s) @ [\<lparr>x = x_pos s', y = y_pos s'\<rparr>]
         \<or> (trajectory (res s') = trajectory (res s) \<and> 2 \<le> length (trajectory (res s))
             \<and> \<not> Fin (real_of_int (abs_int (y_pos s' - y (last (trajectory (res s)))))) > Fin 0.1)"
    by (cases ?recorded) auto
qed

lemma loopBody_advance:
  "loopBody v0 sp w wa ax s = Inr s' \<Longrightarrow> \<exists>dt a b. advance s dt a b = Inr s'"
  unfolding loopBody_def Let_def
  by (auto split: prod.splits sum.splits dest!: andThen_Inr)




section \<open>The first iteration\<close>

lemmas integrator_consts =
  M_PI_def GRAVITY_def MIN_TIMESTEP_def MAX_TIMESTEP_def BASE_TIMESTEP_def
  VELOCITY_SCALE_def ACCEL_SCALE_def SPIN_SCALE_def HEIGHT_SCALE_def SMOOTH_FACTOR_def

lemma initialLocals_fields:
  "x_pos (initialLocals a b) = Fin 0"
  "y_pos (initialLocals a b) = Fin 0"
  "prevY (initialLocals a b) = Fin 0"
  "vx (initialLocals a b) = a"
  "vy (initialLocals a b) = b"
  "prevTimeStep (initialLocals a b) = Fin 0.0003"
  "prevVelocity (initialLocals a b) = Vector3D a b (Fin 0)"
  "timeStep (initialLocals a b) = Fin 0.00005"
  "res (initialLocals a b)
     = \<lparr>trajectory = [\<lparr>x = Fin 0, y = Fin 0\<rparr>], distance = Fin 0, apex = Fin 0\<rparr>"
  by (simp_all add: initialLocals_def integrator_consts)

text \<open>
  At height 0 the height factor is 0, so the raw time step is 0 and the first smoothed
  time step is \<open>0.8 \<cdot> 0.0003\<close>, whatever the launch.
\<close>

lemma first_timeStep:
  "0 \<le> sp \<Longrightarrow> 0 \<le> r \<Longrightarrow>
   adaptiveTimeStep (Fin sp) (initialLocals (Fin a) (Fin b)) (Fin r) = Fin 0.00024"
  by (simp add: adaptiveTimeStep_def initialLocals_fields integrator_consts minus_double_def
      dmin_def dmax_def Let_def)

lemma first_iteration:
  "simulationLoop v0 sp w wa ax 0 (initialLocals a b) =
     (case loopBody v0 sp w wa ax (initialLocals a b) of
        Inl e \<Rightarrow> Inl e
      | Inr s' \<Rightarrow> simulationLoop v0 sp w wa ax (Suc 0) s')"
  by (subst simulationLoop.simps) (simp add: initialLocals_fields MAX_ITERATIONS_def)

lemma loop_exit_below_ground:
  "\<not> y_pos s \<ge> Fin 0.0 \<Longrightarrow> trajectory (res s) \<noteq> [] \<Longrightarrow>
   simulationLoop v0 sp w wa ax n s = Inr (n, s)"
  by (subst simulationLoop.simps) simp

lemma advance_first:
  "0 \<le> a' * dt \<Longrightarrow> a' * dt \<le> 1000 \<Longrightarrow> - 0.1 \<le> b' * dt \<Longrightarrow> b' * dt \<le> 500 \<Longrightarrow>
   advance (initialLocals va vb) (Fin dt) (Fin a') (Fin b')
     = Inr (afterFirst va vb dt a' b' (a' * dt) (b' * dt))"
  by (simp add: advance_def afterFirst_def validateTrajectoryPoint_def andThen_def Let_def
      initialLocals_fields max_def)


lemma loop_exit_afterFirst:
  "py < 0 \<Longrightarrow>
   simulationLoop v0 sp w wa ax n (afterFirst va vb dt a' b' px py)
     = Inr (n, afterFirst va vb dt a' b' px py)"
  by (rule loop_exit_below_ground) (simp_all add: afterFirst_def)

lemma afterLoop_afterFirst:
  "n < 10000 \<Longrightarrow> py < 0 \<Longrightarrow>
   afterLoop n (afterFirst va vb dt a' b' px py)
     = \<lparr>status = Success, errorMessage = [],
        result = Some \<lparr>trajectory = [\<lparr>x = Fin 0, y = Fin 0\<rparr>, \<lparr>x = Fin px, y = Fin py\<rparr>],
                       distance = Fin px, apex = Fin (max 0 py)\<rparr>\<rparr>"
  by (simp add: afterLoop_def MAX_ITERATIONS_def afterFirst_def Let_def initialLocals_fields)

subsection \<open>A ball that moves with the air\<close>

text \<open>With no relative velocity the first iteration applies gravity alone.\<close>

lemma first_step_gravity_only:
  assumes rv: "calculateRelativeVelocity (Fin a) (Fin b) w wa = (Fin 0, Fin 0)"
    and sp: "0 \<le> sp"
  shows "loopBody v0 (Fin sp) w wa ax (initialLocals (Fin a) (Fin b))
     = advance (initialLocals (Fin a) (Fin b)) (Fin 0.00024) (Fin a)
         (Fin (b - 9.81 * 0.00024))"
  unfolding loopBody_def
  by (simp add: getWindGradient_def Let_def initialLocals_fields rv validatePhysicalQuantity_def
      andThen_def first_timeStep sp applyForces_def GRAVITY_def minus_double_def)



lemma relative_velocity_at_rest:
  "calculateRelativeVelocity (Fin 0) (Fin 0) (Fin 0) (Fin 0) = (Fin 0, Fin 0)"
  by (simp add: calculateRelativeVelocity_def M_PI_def minus_double_def Let_def)


lemma relative_velocity_tailwind:
  "calculateRelativeVelocity (Fin 5) (Fin 0) (Fin 5) (Fin 0) = (Fin 0, Fin 0)"
  by (simp add: calculateRelativeVelocity_def M_PI_def minus_double_def Let_def)

text \<open>Speed 0 in still air: the ball falls from the origin.\<close>

lemma run_zero_speed:
  "calculateTrajectoryWithValidation (Fin 0) (Fin 0) (Fin 0) (Fin 0) (Fin 0) defaultSpinAxis
     = \<lparr>status = Success, errorMessage = [],
        result = Some \<lparr>trajectory = [\<lparr>x = Fin 0, y = Fin 0\<rparr>,
                                      \<lparr>x = Fin 0, y = Fin (- 0.000000565056)\<rparr>],
                       distance = Fin 0, apex = Fin 0\<rparr>\<rparr>"
proof -
  have v: "validateLaunchParameters (Fin 0) (Fin 0) (Fin 0) (Fin 0) (Fin 0) = Inr ()"
    by (simp add: validateLaunchParameters_def)
  have b: "loopBody (Fin 0) (Fin 0) (Fin 0) (Fin 0) defaultSpinAxis
             (initialLocals (Fin 0) (Fin 0))
     = Inr (afterFirst (Fin 0) (Fin 0) 0.00024 0 (0 - 9.81 * 0.00024) (0 * 0.00024)
              ((0 - 9.81 * 0.00024) * 0.00024))"
    by (subst first_step_gravity_only [OF relative_velocity_at_rest])
      (simp_all add: advance_first)
  show ?thesis
    by (simp add: calculateTrajectoryWithValidation_def tryBlock_def v andThen_def Let_def
        M_PI_def first_iteration b loop_exit_afterFirst afterLoop_afterFirst)
qed


section \<open>Forces at sea level\<close>

lemma magnus_zero_spin: "calculateMagnusForce (Fin 0) velocity radius spinAxis time = NaN"
proof -
  let ?c = "calculateSpinDecay (Fin 0) time"
  have c: "?c = Fin 0 \<or> ?c = NaN"
    by (cases time) (simp_all add: calculateSpinDecay_def SPIN_DECAY_RATE_def)
  have q: "(?c * d) / ?c = NaN" for d
    using c by (cases d) auto
  show ?thesis
    unfolding calculateMagnusForce_def Let_def
    by (simp add: q times_NaN_right plus_NaN_right)
qed

lemma vpq_ok:
  "lo \<le> v \<Longrightarrow> v \<le> hi \<Longrightarrow>
   validatePhysicalQuantity (Fin v) (Fin lo) (Fin hi) name = Inr ()"
  by (simp add: validatePhysicalQuantity_def)

lemma sea_level_temperature: "getTemperature (Fin 0) = Fin 288.15"
  by (simp add: getTemperature_Fin)

lemma sea_level_layer: "getLayer (Fin 0) = mkLayer 0 288.15 101325.0 (- 0.0065)"
  by (simp add: getLayer_def findLayerIndex_Fin layer_nth)

lemma sea_level_pressure: "getPressure (Fin 0) = Fin 101325"
  by (simp add: getPressure_def sea_level_layer sea_level_temperature mkLayer_def Let_def
      minus_double_def AtmosphericModel_R_def AtmosphericModel_g_def)

lemma sea_level_density: "getAirDensity None (Fin 0) = Fin (101325 / (287.058 * 288.15))"
  by (simp add: getAirDensity_def getDensity_def sea_level_pressure sea_level_temperature
      AtmosphericModel_R_def Let_def)

lemma sea_level_reynolds:
  "calculateReynoldsNumber (Fin v) (Fin 0)
     = Fin (101325 / (287.058 * 288.15) * v * (2 * 0.0213) / 0.0000181)"
  by (simp add: calculateReynoldsNumber_def sea_level_density BALL_RADIUS_def
      AIR_VISCOSITY_def Let_def)

lemmas drag_consts =
  calculateDragCoefficient_def CRITICAL_REYNOLDS_def TURBULENT_REYNOLDS_def
  BASE_DRAG_COEFFICIENT_def minus_double_def

text \<open>
  The forces branch stops at the Magnus force when the four quantities validated before
  it are in range and the Magnus force is not finite.
\<close>

lemma applyForces_magnus_nonfinite:
  assumes "rv > Fin 0.001"
    and "validatePhysicalQuantity (calculateReynoldsNumber rv (y_pos s))
           (Fin 0.0) (Fin 1000000) ''Reynolds number'' = Inr ()"
    and "validatePhysicalQuantity
           (calculateDragCoefficient (calculateReynoldsNumber rv (y_pos s)))
           (Fin 0.0) (Fin 1.0) ''Drag coefficient'' = Inr ()"
    and "validatePhysicalQuantity (getAirDensity None (y_pos s))
           (Fin 0.5) (Fin 1.5) ''Air density'' = Inr ()"
    and "validatePhysicalQuantity
           (Fin 0.5 * getAirDensity None (y_pos s)
              * calculateDragCoefficient (calculateReynoldsNumber rv (y_pos s))
              * BALL_AREA * rv * rv)
           (Fin 0.0) (Fin 100.0) ''Drag force'' = Inr ()"
    and "\<not> isfinite (calculateMagnusForce sp rv BALL_RADIUS ax (x_pos s / v0))"
  shows "applyForces v0 sp ax s rx ry rv dt
     = Inl (PhysicsValidationError ''Magnus force calculation resulted in non-finite value'')"
  using assms unfolding applyForces_def Let_def
  by (simp add: andThen_def
      validatePhysicalQuantity_def [of "calculateMagnusForce sp rv BALL_RADIUS ax (x_pos s / v0)"])



lemma sqrt_2500: "sqrt 2500 = 50"
  using real_sqrt_abs [of 50] by simp



subsection \<open>A launch without spin\<close>

text \<open>50 m/s along the ground, spin 0, no wind.\<close>

lemma relative_velocity_flat:
  "calculateRelativeVelocity (Fin 50) (Fin 0) (Fin 0) (Fin 0) = (Fin 50, Fin 0)"
  by (simp add: calculateRelativeVelocity_def M_PI_def minus_double_def Let_def)

lemma drag_force_flat:
  "validatePhysicalQuantity
     (Fin 0.5 * getAirDensity None (Fin 0)
        * calculateDragCoefficient (calculateReynoldsNumber (Fin 50) (Fin 0))
        * BALL_AREA * Fin 50 * Fin 50)
     (Fin 0.0) (Fin 100.0) ''Drag force'' = Inr ()"
proof -
  define c :: real where
    "c = 0.47 * (1 - 0.5 * ((101325 / (287.058 * 288.15) * 50 * (2 * 0.0213) / 0.0000181
                              - 40000) / 360000))"
  define D :: real where
    "D = 0.5 * (101325 / (287.058 * 288.15)) * c * (pi * 0.0213 * 0.0213) * 50 * 50"
  have cd: "calculateDragCoefficient (calculateReynoldsNumber (Fin 50) (Fin 0)) = Fin c"
    by (simp add: c_def sea_level_reynolds drag_consts)
  have c: "0 \<le> c" "c \<le> 1"
    by (simp_all add: c_def)
  have e: "Fin 0.5 * getAirDensity None (Fin 0) * Fin c * BALL_AREA * Fin 50 * Fin 50 = Fin D"
    by (simp add: D_def sea_level_density BALL_AREA_def M_PI_def BALL_RADIUS_def)
  have "0 \<le> D"
    using c by (simp add: D_def)
  moreover have "D \<le> 100"
  proof -
    have "pi * c \<le> 4 * 1"
      using c pi_less_4 pi_ge_zero by (intro mult_mono) simp_all
    then show ?thesis by (simp add: D_def)
  qed
  ultimately show ?thesis
    unfolding cd e by (intro vpq_ok) simp_all
qed

lemma zero_spin_first_iteration:
  "loopBody (Fin 50) (Fin 0) (Fin 0) (Fin 0) defaultSpinAxis (initialLocals (Fin 50) (Fin 0))
     = Inl (PhysicsValidationError ''Magnus force calculation resulted in non-finite value'')"
proof -
  let ?s = "initialLocals (Fin 50) (Fin 0)"
  have af: "applyForces (Fin 50) (Fin 0) defaultSpinAxis ?s (Fin 50) (Fin 0) (Fin 50)
              (Fin 0.00024)
     = Inl (PhysicsValidationError ''Magnus force calculation resulted in non-finite value'')"
  proof (rule applyForces_magnus_nonfinite)
    show "Fin 50 > Fin 0.001"
      by simp
    show "validatePhysicalQuantity (calculateReynoldsNumber (Fin 50) (y_pos ?s))
            (Fin 0.0) (Fin 1000000) ''Reynolds number'' = Inr ()"
      by (simp add: initialLocals_fields sea_level_reynolds vpq_ok)
    show "validatePhysicalQuantity
            (calculateDragCoefficient (calculateReynoldsNumber (Fin 50) (y_pos ?s)))
            (Fin 0.0) (Fin 1.0) ''Drag coefficient'' = Inr ()"
      by (simp add: initialLocals_fields sea_level_reynolds drag_consts vpq_ok)
    show "validatePhysicalQuantity (getAirDensity None (y_pos ?s))
            (Fin 0.5) (Fin 1.5) ''Air density'' = Inr ()"
      by (simp add: initialLocals_fields sea_level_density vpq_ok)
    show "validatePhysicalQuantity
            (Fin 0.5 * getAirDensity None (y_pos ?s)
               * calculateDragCoefficient (calculateReynoldsNumber (Fin 50) (y_pos ?s))
               * BALL_AREA * Fin 50 * Fin 50)
            (Fin 0.0) (Fin 100.0) ''Drag force'' = Inr ()"
      unfolding initialLocals_fields by (rule drag_force_flat)
    show "\<not> isfinite (calculateMagnusForce (Fin 0) (Fin 50) BALL_RADIUS defaultSpinAxis
                         (x_pos ?s / Fin 50))"
      by (simp add: magnus_zero_spin)
  qed
  show ?thesis
    using af unfolding loopBody_def
    by (simp add: getWindGradient_def Let_def initialLocals_fields relative_velocity_flat
        sqrt_2500 vpq_ok andThen_def first_timeStep)
qed

lemma zero_spin_loop:
  "simulationLoop (Fin 50) (Fin 0) (Fin 0) (Fin 0) defaultSpinAxis 0
       (initialLocals (Fin 50) (Fin 0))
     = Inl (PhysicsValidationError ''Magnus force calculation resulted in non-finite value'')"
  by (simp add: first_iteration zero_spin_first_iteration)

subsection \<open>A vertical launch with backspin\<close>





section \<open>Success results\<close>





section \<open>The launch parameters of a run that enters the loop\<close>











section \<open>The adaptive time step\<close>






section \<open>A run of two iterations\<close>













section \<open>A run with a spin rate that is not a number\<close>

text \<open>
  The spin rate enters the time step and, in the forces branch, the Magnus force. With
  a NaN spin rate the raw time step is NaN and the clamp returns \<^verbatim>\<open>MIN_TIMESTEP\<close>; a
  ball at rest in still air never enters the forces branch, and the run is a Success.
\<close>

lemma nan_spin_timeStep:
  "adaptiveTimeStep NaN (initialLocals (Fin 0) (Fin 0)) (Fin 0) = Fin 0.00005"
  by (simp add: adaptiveTimeStep_def initialLocals_fields integrator_consts minus_double_def
      dmin_def dmax_def Let_def)

lemma run_nan_spin:
  "validateLaunchParameters (Fin 0) (Fin 0) NaN (Fin 0) (Fin 0) = Inr ()
   \<and> calculateTrajectoryWithValidation (Fin 0) (Fin 0) NaN (Fin 0) (Fin 0) defaultSpinAxis
     = \<lparr>status = Success, errorMessage = [],
        result = Some \<lparr>trajectory = [\<lparr>x = Fin 0, y = Fin 0\<rparr>,
                                      \<lparr>x = Fin 0, y = Fin (- 0.000000024525)\<rparr>],
                       distance = Fin 0, apex = Fin 0\<rparr>\<rparr>"
proof -
  have v: "validateLaunchParameters (Fin 0) (Fin 0) NaN (Fin 0) (Fin 0) = Inr ()"
    by (simp add: validateLaunchParameters_def)
  have "loopBody (Fin 0) NaN (Fin 0) (Fin 0) defaultSpinAxis (initialLocals (Fin 0) (Fin 0))
     = advance (initialLocals (Fin 0) (Fin 0)) (Fin 0.00005) (Fin 0)
         (Fin (0 - 9.81 * 0.00005))"
    unfolding loopBody_def
    by (simp add: getWindGradient_def Let_def initialLocals_fields relative_velocity_at_rest
        validatePhysicalQuantity_def andThen_def nan_spin_timeStep applyForces_def
        GRAVITY_def minus_double_def)
  then have b: "loopBody (Fin 0) NaN (Fin 0) (Fin 0) defaultSpinAxis
                  (initialLocals (Fin 0) (Fin 0))
     = Inr (afterFirst (Fin 0) (Fin 0) 0.00005 0 (0 - 9.81 * 0.00005) (0 * 0.00005)
              ((0 - 9.81 * 0.00005) * 0.00005))"
    by (simp add: advance_first)
  show ?thesis
    by (simp add: calculateTrajectoryWithValidation_def tryBlock_def v andThen_def Let_def
        M_PI_def first_iteration b loop_exit_afterFirst afterLoop_afterFirst)
qed

section \<open>Results of the integrator\<close>




text \<open>
  Claim C2, on the code: an exception thrown inside the simulation loop, after the
  launch parameters have passed validation, is always a \<^verbatim>\<open>PhysicsValidationError\<close>; the
  first handler catches it and the result has status InvalidInput, with the thrown
  message (which names the quantity). The claim says CalculationError.
\<close>

theorem intermediate_failure_reported_as_InvalidInput:
  assumes "validateLaunchParameters initialSpeed launchAngle spinRate windSpeed windAngle
             = Inr ()"
    and "simulationLoop initialSpeed spinRate windSpeed windAngle spinAxis 0
           (initialLocals (initialSpeed * dcos (launchAngle * M_PI / Fin 180.0))
                          (initialSpeed * dsin (launchAngle * M_PI / Fin 180.0))) = Inl e"
  shows "\<exists>msg. e = PhysicsValidationError msg
     \<and> calculateTrajectoryWithValidation initialSpeed launchAngle spinRate windSpeed
           windAngle spinAxis
         = \<lparr>status = InvalidInput, errorMessage = msg, result = None\<rparr>"
proof -
  from simulationLoop_Inl [OF assms(2)] obtain msg where "e = PhysicsValidationError msg"
    by (cases e) simp_all
  with assms show ?thesis
    by (simp add: calculateTrajectoryWithValidation_def tryBlock_def andThen_def Let_def)
qed

theorem intermediate_failure_reported_as_InvalidInput_witness:
  "validateLaunchParameters (Fin 50) (Fin 0) (Fin 0) (Fin 0) (Fin 0) = Inr ()
   \<and> calculateTrajectoryWithValidation (Fin 50) (Fin 0) (Fin 0) (Fin 0) (Fin 0)
         defaultSpinAxis
       = \<lparr>status = InvalidInput,
          errorMessage = ''Magnus force calculation resulted in non-finite value'',
          result = None\<rparr>"
proof -
  have v: "validateLaunchParameters (Fin 50) (Fin 0) (Fin 0) (Fin 0) (Fin 0) = Inr ()"
    by (simp add: validateLaunchParameters_def)
  have l: "simulationLoop (Fin 50) (Fin 0) (Fin 0) (Fin 0) defaultSpinAxis 0
             (initialLocals (Fin 50 * dcos (Fin 0 * M_PI / Fin 180.0))
                            (Fin 50 * dsin (Fin 0 * M_PI / Fin 180.0)))
           = Inl (PhysicsValidationError
                    ''Magnus force calculation resulted in non-finite value'')"
    using zero_spin_loop by (simp add: M_PI_def)
  from intermediate_failure_reported_as_InvalidInput [OF v l] v show ?thesis
    by simp
qed




text \<open>
  Claim C5, on the code: when the loop is entered with the counter at 9999 (the
  10000th iteration) and that iteration brings the ball below the ground, the loop ends
  by the first operand of its condition with the counter at 10000, and the test
  \<^verbatim>\<open>iterationCount >= MAX_ITERATIONS\<close> after the loop reports ConvergenceFailure,
  although the ball has returned to the ground.
\<close>

theorem landing_on_last_iteration_reported_as_failure:
  assumes b: "loopBody initialSpeed spinRate windSpeed windAngle spinAxis s = Inr s'"
    and y: "y_pos s \<ge> Fin 0.0" and y': "y_pos s' < Fin 0.0"
  shows "simulationLoop initialSpeed spinRate windSpeed windAngle spinAxis 9999 s
           = Inr (MAX_ITERATIONS, s')
         \<and> status (afterLoop MAX_ITERATIONS s') = ConvergenceFailure"
proof -
  from y' have ny: "\<not> y_pos s' \<ge> Fin 0.0" by (cases "y_pos s'") simp_all
  from loopBody_advance [OF b] obtain dt a c where "advance s dt a c = Inr s'" by blast
  from advance_Inr(3) [OF this] have ne: "trajectory (res s') \<noteq> []" by auto
  have "simulationLoop initialSpeed spinRate windSpeed windAngle spinAxis 9999 s
          = simulationLoop initialSpeed spinRate windSpeed windAngle spinAxis (Suc 9999) s'"
    using y b by (subst simulationLoop.simps) (simp add: MAX_ITERATIONS_def)
  also have "\<dots> = Inr (Suc 9999, s')"
    by (rule loop_exit_below_ground [OF ny ne])
  finally show ?thesis by (simp add: MAX_ITERATIONS_def afterLoop_def)
qed

theorem landing_on_last_iteration_reported_as_failure_witness:
  "simulationLoop (Fin 5) (Fin 2700) (Fin 5) (Fin 0) defaultSpinAxis 9999
       (initialLocals (Fin 5) (Fin 0))
     = Inr (MAX_ITERATIONS,
            afterFirst (Fin 5) (Fin 0) 0.00024 5 (- 0.0023544) 0.0012 (- 0.000000565056))
   \<and> status (afterLoop MAX_ITERATIONS
               (afterFirst (Fin 5) (Fin 0) 0.00024 5 (- 0.0023544) 0.0012 (- 0.000000565056)))
       = ConvergenceFailure"
proof -
  have b: "loopBody (Fin 5) (Fin 2700) (Fin 5) (Fin 0) defaultSpinAxis
             (initialLocals (Fin 5) (Fin 0))
     = Inr (afterFirst (Fin 5) (Fin 0) 0.00024 5 (- 0.0023544) 0.0012 (- 0.000000565056))"
    by (subst first_step_gravity_only [OF relative_velocity_tailwind]) (simp, subst advance_first, simp_all)
  show ?thesis
    by (rule landing_on_last_iteration_reported_as_failure [OF b])
      (simp_all add: initialLocals_fields afterFirst_def)
qed

text \<open>
  Claim C6. On every input for which \<^verbatim>\<open>calculateTrajectoryWithValidation\<close> does not
  return Success, the legacy \<^verbatim>\<open>calculateTrajectory\<close> returns the result with an empty
  trajectory, distance 0 and apex 0. (Every exception of the block is turned into a
  status by the handlers, so the wrapper returns a value on every input.)
\<close>

theorem calculateTrajectory_failure_gives_empty_result:
  "status (calculateTrajectoryWithValidation initialSpeed launchAngle spinRate windSpeed
             windAngle spinAxis) \<noteq> Success \<Longrightarrow>
   calculateTrajectory initialSpeed launchAngle spinRate windSpeed windAngle spinAxis
     = \<lparr>trajectory = [], distance = Fin 0, apex = Fin 0\<rparr>"
  by (simp add: calculateTrajectory_def isSuccess_def Let_def)

lemma run_negative_speed:
  "calculateTrajectoryWithValidation (Fin (- 1)) launchAngle spinRate windSpeed windAngle
       spinAxis
     = \<lparr>status = InvalidInput, errorMessage = ''Initial speed cannot be negative'',
        result = None\<rparr>"
  by (simp add: calculateTrajectoryWithValidation_def tryBlock_def validateLaunchParameters_def
      andThen_def)

theorem calculateTrajectory_failure_gives_empty_result_witness:
  "status (calculateTrajectoryWithValidation (Fin (- 1)) (Fin 10.5) (Fin 2700) (Fin 5) (Fin 0)
             defaultSpinAxis) \<noteq> Success
   \<and> calculateTrajectory (Fin (- 1)) (Fin 10.5) (Fin 2700) (Fin 5) (Fin 0) defaultSpinAxis
       = \<lparr>trajectory = [], distance = Fin 0, apex = Fin 0\<rparr>"
proof -
  have s: "status (calculateTrajectoryWithValidation (Fin (- 1)) (Fin 10.5) (Fin 2700) (Fin 5)
             (Fin 0) defaultSpinAxis) \<noteq> Success"
    by (simp add: run_negative_speed)
  from calculateTrajectory_failure_gives_empty_result [OF s] s show ?thesis by blast
qed

text \<open>
  Claim C7. Every value returned by \<^verbatim>\<open>calculateTrajectoryWithValidation\<close> has, when its
  status is Success, a result and an empty message, and otherwise no result.
\<close>

theorem result_present_iff_success:
  "(status (calculateTrajectoryWithValidation initialSpeed launchAngle spinRate windSpeed
              windAngle spinAxis) = Success \<longrightarrow>
      result (calculateTrajectoryWithValidation initialSpeed launchAngle spinRate windSpeed
                windAngle spinAxis) \<noteq> None
      \<and> errorMessage (calculateTrajectoryWithValidation initialSpeed launchAngle spinRate
                        windSpeed windAngle spinAxis) = [])
   \<and> (status (calculateTrajectoryWithValidation initialSpeed launchAngle spinRate windSpeed
                windAngle spinAxis) \<noteq> Success \<longrightarrow>
        result (calculateTrajectoryWithValidation initialSpeed launchAngle spinRate
                  windSpeed windAngle spinAxis) = None)"
proof (cases "tryBlock initialSpeed launchAngle spinRate windSpeed windAngle spinAxis")
  case (Inl e)
  then show ?thesis
    by (cases e) (simp_all add: calculateTrajectoryWithValidation_def)
next
  case (Inr r)
  from tryBlock_Inr [OF Inr] obtain n s where "r = afterLoop n s" by blast
  with Inr afterLoop_shape [of n s] show ?thesis
    by (auto simp add: calculateTrajectoryWithValidation_def)
qed

theorem result_present_iff_success_witness:
  "status (calculateTrajectoryWithValidation (Fin 0) (Fin 0) (Fin 0) (Fin 0) (Fin 0)
             defaultSpinAxis) = Success
   \<and> result (calculateTrajectoryWithValidation (Fin 0) (Fin 0) (Fin 0) (Fin 0) (Fin 0)
               defaultSpinAxis) \<noteq> None
   \<and> errorMessage (calculateTrajectoryWithValidation (Fin 0) (Fin 0) (Fin 0) (Fin 0) (Fin 0)
                     defaultSpinAxis) = []
   \<and> status (calculateTrajectoryWithValidation (Fin (- 1)) (Fin 10.5) (Fin 2700) (Fin 5)
               (Fin 0) defaultSpinAxis) \<noteq> Success
   \<and> result (calculateTrajectoryWithValidation (Fin (- 1)) (Fin 10.5) (Fin 2700) (Fin 5)
               (Fin 0) defaultSpinAxis) = None"
proof -
  have s: "status (calculateTrajectoryWithValidation (Fin 0) (Fin 0) (Fin 0) (Fin 0) (Fin 0)
             defaultSpinAxis) = Success"
    by (simp add: run_zero_speed)
  have f: "status (calculateTrajectoryWithValidation (Fin (- 1)) (Fin 10.5) (Fin 2700) (Fin 5)
             (Fin 0) defaultSpinAxis) \<noteq> Success"
    by (simp add: run_negative_speed)
  from result_present_iff_success [of "Fin 0" "Fin 0" "Fin 0" "Fin 0" "Fin 0" defaultSpinAxis]
    result_present_iff_success
      [of "Fin (- 1)" "Fin 10.5" "Fin 2700" "Fin 5" "Fin 0" defaultSpinAxis] s f
  show ?thesis by blast
qed

text \<open>
  Claim C10. At spin rate 0 \<^verbatim>\<open>calculateMagnusForce\<close> divides the spin components by
  the decayed spin 0 and returns NaN, for every velocity, radius, spin axis and time.
  The launch at 50 m/s, angle 0, spin 0, no wind passes the input validation, and its
  first iteration stops at the non-finite check of the Magnus force.
\<close>

theorem calculateMagnusForce_zero_spin_not_finite:
  "calculateMagnusForce (Fin 0) velocity radius spinAxis time = NaN
   \<and> \<not> isfinite (calculateMagnusForce (Fin 0) velocity radius spinAxis time)
   \<and> validateLaunchParameters (Fin 50) (Fin 0) (Fin 0) (Fin 0) (Fin 0) = Inr ()
   \<and> loopBody (Fin 50) (Fin 0) (Fin 0) (Fin 0) defaultSpinAxis (initialLocals (Fin 50) (Fin 0))
       = Inl (PhysicsValidationError
                ''Magnus force calculation resulted in non-finite value'')"
  by (simp add: magnus_zero_spin zero_spin_first_iteration)
    (simp add: validateLaunchParameters_def)

theorem calculateMagnusForce_zero_spin_not_finite_witness:
  "calculateMagnusForce (Fin 0) (Fin 50) BALL_RADIUS defaultSpinAxis (Fin 0) = NaN"
  using calculateMagnusForce_zero_spin_not_finite
    [of "Fin 50" BALL_RADIUS defaultSpinAxis "Fin 0"]
  by blast

end
